theory Spec2Isabelle
  imports Complex_Main
begin

section \<open>Trinary logic primitives (trinary_operators.py)\<close>

text \<open>
  Python integers are unbounded, so trinary values are modelled as \<open>int\<close>; the source does
  not validate that a value lies in \<open>{-1, 0, 1}\<close>, and neither does the model.
  Python floats are idealised as \<open>real\<close>. The only floats the evaluator produces are sums
  of \<open>0.0\<close> and \<open>1.0\<close>, which are exact in both readings.
\<close>

definition FALSE :: int where
  "FALSE = -1"

definition UNKNOWN :: int where
  "UNKNOWN = 0"

definition TRUE :: int where
  "TRUE = 1"

definition TAND :: "int \<Rightarrow> int \<Rightarrow> int" where
  "TAND a b = min a b"

definition TOR :: "int \<Rightarrow> int \<Rightarrow> int" where
  "TOR a b = max a b"

definition TNOT :: "int \<Rightarrow> int" where
  "TNOT a = - a"

definition TIMPLIES :: "int \<Rightarrow> int \<Rightarrow> int" where
  "TIMPLIES a b =
     (if a = FALSE then TRUE
      else if a = UNKNOWN then (if b \<noteq> TRUE then UNKNOWN else TRUE)
      else b)"

definition uncertainty_measure :: "int \<Rightarrow> real" where
  "uncertainty_measure v = (if v = UNKNOWN then 1.0 else 0.0)"

text \<open>
  The implication of strong Kleene logic, \<open>NOT a OR b\<close>, written with the source's own
  negation and disjunction. It is not part of the program; it is the yardstick the
  rule set of \<open>TIMPLIES\<close> is compared with.
\<close>

definition kleene_implies :: "int \<Rightarrow> int \<Rightarrow> int" where
  "kleene_implies a b = TOR (TNOT a) b"


section \<open>The trinary inference evaluator\<close>

datatype py_error = IndexError

text \<open>
  An entry of \<open>reasoning_history\<close> is a dict with the keys \<open>premises\<close>, \<open>operations\<close>,
  \<open>result\<close> and \<open>uncertainty\<close>; the fields carry the prefix \<open>step_\<close> because
  \<open>premises\<close> is a reserved word here.
\<close>

record ReasoningStep =
  step_premises :: "int list"
  step_operations :: "string list"
  step_result :: int
  step_uncertainty :: real

record LucidiaTrinaryCortex =
  reasoning_history :: "ReasoningStep list"
  contradiction_count :: int

definition init_trinary_cortex :: LucidiaTrinaryCortex where
  "init_trinary_cortex = \<lparr>reasoning_history = [], contradiction_count = 0\<rparr>"

text \<open>
  The \<open>if/elif\<close> chain in the body of the loop of \<open>reason_chain\<close>: a tag other than
  \<open>AND\<close>, \<open>OR\<close>, \<open>IMPLIES\<close> matches no branch and leaves \<open>current_state\<close> as it is.
\<close>

definition chain_step :: "string \<Rightarrow> int \<Rightarrow> int \<Rightarrow> int" where
  "chain_step opr current_state next_premise =
     (if opr = ''AND'' then TAND current_state next_premise
      else if opr = ''OR'' then TOR current_state next_premise
      else if opr = ''IMPLIES'' then TIMPLIES current_state next_premise
      else current_state)"

text \<open>
  Reading a list at an index. The two reads of \<open>reason_chain\<close>, \<open>premises[0]\<close> and
  \<open>premises[i + 1]\<close>, have indices that are never negative; such a read raises
  \<open>IndexError\<close> when the index is not below the length of the list.
\<close>

definition list_index :: "'a list \<Rightarrow> nat \<Rightarrow> py_error + 'a" where
  "list_index xs i = (if i < length xs then Inr (xs ! i) else Inl IndexError)"

text \<open>
  The loop \<open>for i, op in enumerate(operations)\<close>: the index \<open>i\<close> advances with every
  operation, whether or not the guard \<open>i + 1 < len(premises)\<close> lets the body run.
  An exception raised by the read of the next premise ends the loop and the call.
\<close>

fun chain_loop ::
  "int list \<Rightarrow> nat \<Rightarrow> string list \<Rightarrow> int \<Rightarrow> real \<Rightarrow> py_error + (int \<times> real)" where
  "chain_loop prems i [] current_state uncertainty_accumulation =
     Inr (current_state, uncertainty_accumulation)"
| "chain_loop prems i (opr # ops) current_state uncertainty_accumulation =
     (if i + 1 < length prems then
        (case list_index prems (i + 1) of
           Inl e \<Rightarrow> Inl e
         | Inr next_premise \<Rightarrow>
             (let current_state' = chain_step opr current_state next_premise
              in chain_loop prems (i + 1) ops current_state'
                   (uncertainty_accumulation + uncertainty_measure current_state')))
      else chain_loop prems (i + 1) ops current_state uncertainty_accumulation)"

text \<open>
  \<open>premises[0]\<close> raises \<open>IndexError\<close> on an empty list, before anything is logged.
  When no read fails the call appends one step to the history and returns the pair.
\<close>

definition reason_chain ::
  "LucidiaTrinaryCortex \<Rightarrow> int list \<Rightarrow> string list
     \<Rightarrow> py_error + ((int \<times> real) \<times> LucidiaTrinaryCortex)" where
  "reason_chain self prems ops =
     (case list_index prems 0 of
        Inl e \<Rightarrow> Inl e
      | Inr p0 \<Rightarrow>
          (case chain_loop prems 0 ops p0 0.0 of
             Inl e \<Rightarrow> Inl e
           | Inr (current_state, uncertainty_accumulation) \<Rightarrow>
               Inr ((current_state, uncertainty_accumulation),
                    self\<lparr>reasoning_history := reasoning_history self @
                      [\<lparr>step_premises = prems, step_operations = ops,
                        step_result = current_state,
                        step_uncertainty = uncertainty_accumulation\<rparr>]\<rparr>)))"

definition consciousness_phi_contribution :: "LucidiaTrinaryCortex \<Rightarrow> real" where
  "consciousness_phi_contribution self =
     (if reasoning_history self = [] then 0.0
      else (let total_uncertainty = sum_list (map step_uncertainty (reasoning_history self));
                reasoning_depth = length (reasoning_history self)
            in total_uncertainty / real (reasoning_depth + 1)))"

text \<open>
  The chain as the specification words it, written without the functions of the program.
  The operators: AND is the minimum, OR is the maximum, IMPLIES is true when \<open>a\<close> is
  false, is unknown when \<open>a\<close> is unknown unless \<open>b\<close> is true, in which case it is true,
  and is \<open>b\<close> otherwise; any other tag leaves the running result as it is. The
  uncertainty of a value is \<open>1.0\<close> if the value is \<open>0\<close> and \<open>0.0\<close> otherwise. The chain
  starts from the first premise and walks the operations paired with the premises that
  follow it, one premise per operation, adding the uncertainty of each new running
  result.
\<close>

definition spec_operator :: "string \<Rightarrow> int \<Rightarrow> int \<Rightarrow> int" where
  "spec_operator opr a b =
     (if opr = ''AND'' then min a b
      else if opr = ''OR'' then max a b
      else if opr = ''IMPLIES'' then
        (if a = -1 then 1 else if a = 0 then (if b = 1 then 1 else 0) else b)
      else a)"

definition spec_uncertainty :: "int \<Rightarrow> real" where
  "spec_uncertainty v = (if v = 0 then 1 else 0)"

fun run_chain_spec :: "int \<Rightarrow> real \<Rightarrow> (string \<times> int) list \<Rightarrow> int \<times> real" where
  "run_chain_spec running unc [] = (running, unc)"
| "run_chain_spec running unc ((opr, next_premise) # rest) =
     (let running' = spec_operator opr running next_premise
      in run_chain_spec running' (unc + spec_uncertainty running') rest)"


section \<open>The contradiction resolver (contradiction_resolver.py)\<close>

datatype ContradictionSeverity = SOFT | MEDIUM | HARD | CRITICAL

fun severity_value :: "ContradictionSeverity \<Rightarrow> int" where
  "severity_value SOFT = 1"
| "severity_value MEDIUM = 2"
| "severity_value HARD = 3"
| "severity_value CRITICAL = 4"

text \<open>
  The dataclass \<open>Contradiction\<close>. Its field \<open>context\<close> is written \<open>context_text\<close>, since
  \<open>context\<close> is a reserved word here.
\<close>

record Contradiction =
  belief_a :: string
  belief_b :: string
  value_a :: int
  value_b :: int
  severity :: ContradictionSeverity
  timestamp :: real
  context_text :: string
  resolution_attempts :: int

definition detect_contradiction ::
  "string \<Rightarrow> int \<Rightarrow> string \<Rightarrow> int \<Rightarrow> Contradiction option" where
  "detect_contradiction belief_name_a va belief_name_b vb =
     (if va = vb then None
      else
        (let sev =
               (if va = 0 \<or> vb = 0 then (if va = 0 \<and> vb = 0 then SOFT else MEDIUM)
                else if va = - vb then HARD
                else MEDIUM)
         in Some \<lparr>belief_a = belief_name_a, belief_b = belief_name_b,
                   value_a = va, value_b = vb, severity = sev,
                   timestamp = 0.0, context_text = '''', resolution_attempts = 0\<rparr>))"

definition resolve_soft :: "Contradiction \<Rightarrow> int \<times> real" where
  "resolve_soft contradiction = (0, 0.0)"

definition resolve_medium :: "Contradiction \<Rightarrow> int \<times> real" where
  "resolve_medium contradiction =
     (let certain_value =
            (if value_a contradiction \<noteq> 0 then value_a contradiction
             else value_b contradiction)
      in (certain_value, 0.3))"

definition resolve_hard :: "Contradiction \<Rightarrow> int \<times> real" where
  "resolve_hard contradiction = (0, 0.5)"

definition resolve_critical :: "Contradiction \<Rightarrow> int \<times> real" where
  "resolve_critical contradiction = (0, 1.0)"

text \<open>The dict \<open>resolution_strategies\<close>: every severity is a key, so the lookup cannot fail.\<close>

fun resolution_strategies :: "ContradictionSeverity \<Rightarrow> Contradiction \<Rightarrow> int \<times> real" where
  "resolution_strategies SOFT = resolve_soft"
| "resolution_strategies MEDIUM = resolve_medium"
| "resolution_strategies HARD = resolve_hard"
| "resolution_strategies CRITICAL = resolve_critical"

text \<open>
  A Python dict keeps its keys in insertion order, and \<open>items()\<close> walks them in that order;
  the order decides in which order new contradictions are appended. The two networks are
  therefore association lists. Assigning to a key replaces the value where the key
  stands and appends the pair when the key is new.
\<close>

fun dict_set :: "'k \<Rightarrow> 'v \<Rightarrow> ('k \<times> 'v) list \<Rightarrow> ('k \<times> 'v) list" where
  "dict_set k v [] = [(k, v)]"
| "dict_set k v ((k', v') # rest) =
     (if k' = k then (k, v) # rest else (k', v') # dict_set k v rest)"

record LucidiaContradictionCortex =
  active_contradictions :: "Contradiction list"
  resolved_contradictions :: "Contradiction list"
  cortex :: LucidiaTrinaryCortex
  belief_network :: "(string \<times> int) list"
  confidence_network :: "(string \<times> real) list"

definition init_contradiction_cortex ::
  "LucidiaTrinaryCortex \<Rightarrow> LucidiaContradictionCortex" where
  "init_contradiction_cortex trinary_cortex =
     \<lparr>active_contradictions = [], resolved_contradictions = [],
      cortex = trinary_cortex, belief_network = [], confidence_network = []\<rparr>"

text \<open>
  The loop of \<open>update_belief_network\<close> over \<open>belief_network.items()\<close>. A dataclass instance
  is always truthy, so \<open>if contradiction:\<close> tests for \<open>None\<close>.
\<close>

fun detect_loop ::
  "(string \<times> int) list \<Rightarrow> string \<Rightarrow> int \<Rightarrow> Contradiction list \<Rightarrow> Contradiction list" where
  "detect_loop [] belief_name v new_contradictions = new_contradictions"
| "detect_loop ((existing_belief, existing_value) # rest) belief_name v new_contradictions =
     (case detect_contradiction existing_belief existing_value belief_name v of
        None \<Rightarrow> detect_loop rest belief_name v new_contradictions
      | Some contradiction \<Rightarrow>
          detect_loop rest belief_name v (new_contradictions @ [contradiction]))"

text \<open>
  The default \<open>confidence = 1.0\<close> is the caller's business: the model takes the
  confidence as an argument. The result is the returned count and the updated instance.
\<close>

definition update_belief_network ::
  "LucidiaContradictionCortex \<Rightarrow> string \<Rightarrow> int \<Rightarrow> real
     \<Rightarrow> nat \<times> LucidiaContradictionCortex" where
  "update_belief_network self belief_name v confidence =
     (let new_contradictions = detect_loop (belief_network self) belief_name v []
      in (length new_contradictions,
          self\<lparr>active_contradictions := active_contradictions self @ new_contradictions,
               belief_network := dict_set belief_name v (belief_network self),
               confidence_network :=
                 dict_set belief_name confidence (confidence_network self)\<rparr>))"

text \<open>The dict that \<open>resolve_active_contradictions\<close> returns, with its four keys.\<close>

record resolution_results =
  contradictions_resolved :: nat
  entropy_cost :: real
  consciousness_delta :: real
  preserved_information :: real

text \<open>
  The loop over \<open>sorted_contradictions\<close>. The object whose counter is incremented is the
  one appended to \<open>resolved_contradictions\<close>; the old active list, which shares it, is
  dropped right after the loop, so copying the record loses nothing.
\<close>

fun resolve_loop ::
  "Contradiction list \<Rightarrow> resolution_results \<Rightarrow> Contradiction list
     \<Rightarrow> resolution_results \<times> Contradiction list" where
  "resolve_loop [] results resolved = (results, resolved)"
| "resolve_loop (contradiction # rest) results resolved =
     (let strategy = resolution_strategies (severity contradiction);
          (_, cost) = strategy contradiction;
          results' = results\<lparr>entropy_cost := entropy_cost results + cost\<rparr>;
          results'' = results'\<lparr>contradictions_resolved := contradictions_resolved results' + 1\<rparr>;
          contradiction' =
            contradiction\<lparr>resolution_attempts := resolution_attempts contradiction + 1\<rparr>
      in resolve_loop rest results'' (resolved @ [contradiction']))"

text \<open>
  \<open>sorted(..., key = severity.value, reverse=True)\<close> is a stable sort by descending
  severity value: \<open>sort_key\<close> on the negated value, which is stable too.
\<close>

definition resolve_active_contradictions ::
  "LucidiaContradictionCortex \<Rightarrow> resolution_results \<times> LucidiaContradictionCortex" where
  "resolve_active_contradictions self =
     (let results0 = \<lparr>contradictions_resolved = 0, entropy_cost = 0.0,
                       consciousness_delta = 0.0, preserved_information = 0.0\<rparr>;
          initial_phi = consciousness_phi_contribution (cortex self);
          sorted_contradictions =
            sort_key (\<lambda>c. - severity_value (severity c)) (active_contradictions self);
          (results1, resolved) =
            resolve_loop sorted_contradictions results0 (resolved_contradictions self);
          self' = self\<lparr>resolved_contradictions := resolved, active_contradictions := []\<rparr>;
          final_phi = consciousness_phi_contribution (cortex self');
          results2 = results1\<lparr>consciousness_delta := final_phi - initial_phi\<rparr>;
          total_beliefs = length (belief_network self');
          uncertain_beliefs = length (filter (\<lambda>(k, v). v = 0) (belief_network self'))
      in (results2\<lparr>preserved_information :=
                      real uncertain_beliefs / real (max total_beliefs 1)\<rparr>,
          self'))"

text \<open>\<open>numpy.mean\<close> of a non-empty list of integers: their sum divided by their number.\<close>

definition np_mean :: "int list \<Rightarrow> real" where
  "np_mean xs = real_of_int (sum_list xs) / real (length xs)"

definition system_coherence_score :: "LucidiaContradictionCortex \<Rightarrow> real" where
  "system_coherence_score self =
     (if belief_network self = [] then 1.0
      else
        (let contradiction_penalty = real (length (active_contradictions self)) * 0.1;
             resolution_bonus = real (length (resolved_contradictions self)) * 0.05;
             certainty_values = map (\<lambda>(k, v). \<bar>v\<bar>) (belief_network self);
             base_coherence = (if certainty_values \<noteq> [] then np_mean certainty_values else 0.0)
         in max 0.0 (min 1.0 (base_coherence + resolution_bonus - contradiction_penalty))))"

text \<open>A contradiction after one more resolution attempt has been counted on it.\<close>

definition attempted :: "Contradiction \<Rightarrow> Contradiction" where
  "attempted c = c\<lparr>resolution_attempts := resolution_attempts c + 1\<rparr>"

text \<open>The contradictions that a call of \<open>update_belief_network\<close> appends to the active list.\<close>

definition appended_contradictions ::
  "LucidiaContradictionCortex \<Rightarrow> string \<Rightarrow> int \<Rightarrow> Contradiction list" where
  "appended_contradictions self belief_name v =
     detect_loop (belief_network self) belief_name v []"

text \<open>
  The cost table of the specification: SOFT 0.0, MEDIUM 0.3, HARD 0.5, CRITICAL 1.0.
  The program has no such table; it is what the strategies are compared with.
\<close>

fun severity_cost :: "ContradictionSeverity \<Rightarrow> real" where
  "severity_cost SOFT = 0.0"
| "severity_cost MEDIUM = 0.3"
| "severity_cost HARD = 0.5"
| "severity_cost CRITICAL = 1.0"

text \<open>
  The scenarios of the specification, from a fresh engine: belief \<open>A\<close> asserted true and
  then \<open>B\<close> asserted false.
\<close>

definition fresh_engine :: LucidiaContradictionCortex where
  "fresh_engine = init_contradiction_cortex init_trinary_cortex"

definition engine_A :: LucidiaContradictionCortex where
  "engine_A = snd (update_belief_network fresh_engine ''A'' 1 1.0)"

definition engine_A_B :: LucidiaContradictionCortex where
  "engine_A_B = snd (update_belief_network engine_A ''B'' (-1) 1.0)"


section \<open>Properties of the evaluator\<close>

lemma chain_step_spec: "chain_step opr a b = spec_operator opr a b"
  by (simp add: chain_step_def spec_operator_def TAND_def TOR_def TIMPLIES_def
      FALSE_def UNKNOWN_def TRUE_def)

lemma uncertainty_measure_spec: "uncertainty_measure v = spec_uncertainty v"
  by (simp add: uncertainty_measure_def spec_uncertainty_def UNKNOWN_def)

lemma chain_loop_exhausted:
  "length prems \<le> i + 1 \<Longrightarrow> chain_loop prems i ops cur acc = Inr (cur, acc)"
  by (induction ops arbitrary: i) simp_all

lemma chain_loop_spec:
  "chain_loop (p # ps) i ops cur acc = Inr (run_chain_spec cur acc (zip ops (drop i ps)))"
proof (induction ops arbitrary: i cur acc)
  case Nil
  show ?case by simp
next
  case (Cons opr ops)
  show ?case
  proof (cases "i < length ps")
    case True
    then have d: "drop i ps = ps ! i # drop (Suc i) ps"
      by (simp add: Cons_nth_drop_Suc)
    from True show ?thesis
      by (simp add: d Cons.IH Let_def list_index_def chain_step_spec
          uncertainty_measure_spec)
  next
    case False
    then have "chain_loop (p # ps) i (opr # ops) cur acc = Inr (cur, acc)"
      by (intro chain_loop_exhausted) simp
    with False show ?thesis by simp
  qed
qed

lemma reason_chain_Cons:
  "reason_chain self (p # ps) ops =
     Inr (run_chain_spec p 0 (zip ops ps),
          self\<lparr>reasoning_history := reasoning_history self @
            [\<lparr>step_premises = p # ps, step_operations = ops,
              step_result = fst (run_chain_spec p 0 (zip ops ps)),
              step_uncertainty = snd (run_chain_spec p 0 (zip ops ps))\<rparr>]\<rparr>)"
  by (simp add: reason_chain_def list_index_def chain_loop_spec case_prod_beta)



lemma TIMPLIES_table:
  "TIMPLIES (-1) b = 1" "TIMPLIES 1 b = b"
  "TIMPLIES 0 1 = 1" "TIMPLIES 0 (-1) = 0" "TIMPLIES 0 0 = 0"
  by (simp_all add: TIMPLIES_def FALSE_def UNKNOWN_def TRUE_def)

text \<open>
  Claim C3, as amended. For all trinary values \<open>a\<close>, \<open>b\<close> in \<open>{-1, 0, 1}\<close>:
  \<open>IMPLIES(-1, b) = 1\<close>, \<open>IMPLIES(1, b) = b\<close>, \<open>IMPLIES(0, 1) = 1\<close>,
  \<open>IMPLIES(0, -1) = 0\<close>, \<open>IMPLIES(0, 0) = 0\<close>; and on these values the rule set is
  the implication of strong Kleene logic, \<open>OR(NOT(a), b)\<close>.
\<close>

theorem TIMPLIES_rules:
  assumes "a \<in> {-1, 0, 1}" and "b \<in> {-1, 0, 1}"
  shows "TIMPLIES (-1) b = 1 \<and> TIMPLIES 1 b = b \<and> TIMPLIES 0 1 = 1
       \<and> TIMPLIES 0 (-1) = 0 \<and> TIMPLIES 0 0 = 0
       \<and> TIMPLIES a b = kleene_implies a b"
proof -
  have "TIMPLIES a b = kleene_implies a b"
    using assms
    by (auto simp: TIMPLIES_def kleene_implies_def TOR_def TNOT_def
        FALSE_def UNKNOWN_def TRUE_def)
  then show ?thesis
    by (simp add: TIMPLIES_table)
qed

theorem TIMPLIES_rules_witness:
  "(0::int) \<in> {-1, 0, 1} \<and> (-1::int) \<in> {-1, 0, 1}
   \<and> TIMPLIES (-1) (-1) = 1 \<and> TIMPLIES 1 (-1) = -1 \<and> TIMPLIES 0 1 = 1
   \<and> TIMPLIES 0 (-1) = 0 \<and> TIMPLIES 0 0 = 0
   \<and> TIMPLIES 0 (-1) = kleene_implies 0 (-1)"
  using TIMPLIES_rules [of 0 "-1"] by simp

text \<open>
  Claim C3 as stated says that the rule set is not Kleene implication. At each of the nine
  pairs of trinary values \<open>TIMPLIES\<close> returns what \<open>OR(NOT(a), b)\<close> returns.
\<close>

theorem TIMPLIES_kleene_counterexample:
  "TIMPLIES (-1) (-1) = kleene_implies (-1) (-1)
   \<and> TIMPLIES (-1) 0 = kleene_implies (-1) 0
   \<and> TIMPLIES (-1) 1 = kleene_implies (-1) 1
   \<and> TIMPLIES 0 (-1) = kleene_implies 0 (-1)
   \<and> TIMPLIES 0 0 = kleene_implies 0 0
   \<and> TIMPLIES 0 1 = kleene_implies 0 1
   \<and> TIMPLIES 1 (-1) = kleene_implies 1 (-1)
   \<and> TIMPLIES 1 0 = kleene_implies 1 0
   \<and> TIMPLIES 1 1 = kleene_implies 1 1"
  by (simp add: TIMPLIES_def kleene_implies_def TOR_def TNOT_def
      FALSE_def UNKNOWN_def TRUE_def)


text \<open>
  Claim C8. \<open>consciousness_phi_contribution\<close> is \<open>0.0\<close> on an empty history; otherwise
  it is the sum of the recorded uncertainties divided by the number of steps plus one,
  which differs from the plain mean whenever that sum is not zero.
\<close>

theorem phi_contribution_damped:
  "(reasoning_history self = [] \<longrightarrow> consciousness_phi_contribution self = 0)
   \<and> (reasoning_history self \<noteq> [] \<longrightarrow>
        consciousness_phi_contribution self =
          sum_list (map step_uncertainty (reasoning_history self))
            / (real (length (reasoning_history self)) + 1)
        \<and> (sum_list (map step_uncertainty (reasoning_history self)) \<noteq> 0 \<longrightarrow>
             consciousness_phi_contribution self \<noteq>
               sum_list (map step_uncertainty (reasoning_history self))
                 / real (length (reasoning_history self))))"
proof -
  have "s / (real n + 1) \<noteq> s / real n" if "s \<noteq> 0" and "0 < n" for s :: real and n :: nat
    using that by (simp add: field_simps)
  then show ?thesis
    by (simp add: consciousness_phi_contribution_def Let_def add.commute)
qed

theorem phi_contribution_damped_witness:
  "reasoning_history init_trinary_cortex = []
   \<and> consciousness_phi_contribution init_trinary_cortex = 0
   \<and> reasoning_history
        (init_trinary_cortex\<lparr>reasoning_history :=
          [\<lparr>step_premises = [1, 0], step_operations = [''AND''],
            step_result = 0, step_uncertainty = 1\<rparr>]\<rparr>) \<noteq> []
   \<and> consciousness_phi_contribution
        (init_trinary_cortex\<lparr>reasoning_history :=
          [\<lparr>step_premises = [1, 0], step_operations = [''AND''],
            step_result = 0, step_uncertainty = 1\<rparr>]\<rparr>) = 1 / 2"
  using phi_contribution_damped [of init_trinary_cortex]
    phi_contribution_damped [of "init_trinary_cortex\<lparr>reasoning_history :=
          [\<lparr>step_premises = [1, 0], step_operations = [''AND''],
            step_result = 0, step_uncertainty = 1\<rparr>]\<rparr>"]
  by (simp add: init_trinary_cortex_def)

text \<open>
  Claim C9. With an empty premise sequence \<open>reason_chain\<close> fails: reading the first
  premise raises \<open>IndexError\<close>. With a non-empty premise sequence no read of the call
  raises, neither that of the first premise nor any read of a next premise inside the
  loop, however many operations there are: the call always returns a value.
\<close>

theorem reason_chain_total_on_nonempty:
  "reason_chain self [] ops = Inl IndexError
   \<and> (prems \<noteq> [] \<longrightarrow> (\<exists>r. reason_chain self prems ops = Inr r))"
proof (cases prems)
  case Nil
  then show ?thesis
    by (simp add: reason_chain_def list_index_def)
next
  case (Cons p ps)
  have loop: "\<exists>r. chain_loop prems i ops' cur acc = Inr r" for i ops' cur acc
  proof (induction ops' arbitrary: i cur acc)
    case Nil
    show ?case by simp
  next
    case (Cons opr ops')
    show ?case
      using Cons.IH by (simp add: list_index_def Let_def)
  qed
  from loop [of 0 ops p 0] obtain r where "chain_loop prems 0 ops p 0 = Inr r"
    by blast
  with Cons show ?thesis
    by (simp add: reason_chain_def list_index_def case_prod_beta)
qed

theorem reason_chain_total_on_nonempty_witness:
  "reason_chain init_trinary_cortex [] [''AND''] = Inl IndexError
   \<and> [1, 0, -1] \<noteq> ([] :: int list)
   \<and> (\<exists>r. reason_chain init_trinary_cortex [1, 0, -1] [''AND'', ''OR''] = Inr r)
   \<and> (\<exists>r. reason_chain init_trinary_cortex [1] [''AND'', ''OR''] = Inr r)"
  using reason_chain_total_on_nonempty
      [where self = init_trinary_cortex and ops = "[''AND'']" and prems = "[1]"]
    reason_chain_total_on_nonempty
      [where self = init_trinary_cortex and ops = "[''AND'', ''OR'']" and prems = "[1, 0, -1]"]
    reason_chain_total_on_nonempty
      [where self = init_trinary_cortex and ops = "[''AND'', ''OR'']" and prems = "[1]"]
  by simp

text \<open>
  Claim C10. When the operation at position \<open>i\<close> is a tag other than \<open>AND\<close>, \<open>OR\<close>,
  \<open>IMPLIES\<close> (for instance \<open>NOT\<close>) and premise \<open>i + 1\<close> exists, the loop goes on with the
  running result unchanged, with the uncertainty of that unchanged result added, and at
  position \<open>i + 1\<close>, so that the premise of the step is consumed. For the first operation
  of a call this means that the second premise \<open>q\<close> is dropped and the chain continues
  from \<open>p\<close> with the uncertainty of \<open>p\<close> already counted.
\<close>

theorem unknown_tag_step:
  assumes "opr \<notin> {''AND'', ''OR'', ''IMPLIES''}" and "i + 1 < length prems"
  shows "chain_loop prems i (opr # ops) cur acc =
           chain_loop prems (i + 1) ops cur (acc + uncertainty_measure cur)
       \<and> map_sum id fst (reason_chain self (p # q # ps) (opr # ops)) =
           Inr (run_chain_spec p (uncertainty_measure p) (zip ops ps))"
  using assms
  by (simp add: chain_step_def list_index_def reason_chain_Cons spec_operator_def
      flip: uncertainty_measure_spec)

theorem unknown_tag_step_witness:
  "''NOT'' \<notin> {''AND'', ''OR'', ''IMPLIES''} \<and> 0 + 1 < length [0, 1 :: int]
   \<and> chain_loop [0, 1] 0 [''NOT''] 0 0 = Inr (0, 1)
   \<and> map_sum id fst (reason_chain init_trinary_cortex [0, 1, -1] [''NOT'', ''OR'']) =
       Inr (0, 2)"
  using unknown_tag_step
      [where opr = "''NOT''" and i = 0 and prems = "[0, 1]" and ops = "[]" and cur = 0
         and acc = 0 and self = init_trinary_cortex and p = 0 and q = 1 and ps = "[]"]
    unknown_tag_step
      [where opr = "''NOT''" and i = 0 and prems = "[0, 1]" and ops = "[''OR'']" and cur = 0
         and acc = 0 and self = init_trinary_cortex and p = 0 and q = 1 and ps = "[-1]"]
  by (simp add: chain_step_def uncertainty_measure_def UNKNOWN_def TOR_def
      spec_operator_def spec_uncertainty_def)


section \<open>Properties of the contradiction resolver\<close>

lemma set_map_filter_iff:
  "c \<in> set (List.map_filter f xs) \<longleftrightarrow> (\<exists>x \<in> set xs. f x = Some c)"
  by (induction xs) (auto simp: map_filter_simps split: option.splits)

lemma detect_loop_acc:
  "detect_loop items belief_name v acc =
     acc @ List.map_filter (\<lambda>(k, w). detect_contradiction k w belief_name v) items"
  by (induction items arbitrary: acc)
    (auto simp: map_filter_simps split: option.splits)

lemma map_filter_sides:
  "map (\<lambda>c. (belief_a c, value_a c, belief_b c, value_b c))
     (List.map_filter (\<lambda>(k, w). detect_contradiction k w belief_name v) items) =
   map (\<lambda>(k, w). (k, w, belief_name, v)) (filter (\<lambda>(k, w). w \<noteq> v) items)"
  by (induction items)
    (auto simp: map_filter_simps detect_contradiction_def Let_def)

lemma detect_loop_sides:
  "map (\<lambda>c. (belief_a c, value_a c, belief_b c, value_b c))
     (detect_loop items belief_name v []) =
   map (\<lambda>(k, w). (k, w, belief_name, v)) (filter (\<lambda>(k, w). w \<noteq> v) items)"
  by (simp add: detect_loop_acc map_filter_sides)

lemma detect_contradiction_Some:
  "detect_contradiction k w belief_name v = Some c \<Longrightarrow>
     w \<noteq> v \<and> belief_a c = k \<and> belief_b c = belief_name \<and> value_a c = w \<and> value_b c = v"
  by (auto simp: detect_contradiction_def Let_def split: if_splits)

lemma detect_contradiction_differ:
  "w \<noteq> v \<Longrightarrow> \<exists>c. detect_contradiction k w belief_name v = Some c"
  by (simp add: detect_contradiction_def Let_def)

lemma strategy_cost: "snd (resolution_strategies sev c) = severity_cost sev"
  by (cases sev)
    (simp_all add: resolve_soft_def resolve_medium_def resolve_hard_def
      resolve_critical_def Let_def)

lemma resolve_loop_resolved:
  "snd (resolve_loop cs results resolved) = resolved @ map attempted cs"
  by (induction cs arbitrary: results resolved)
    (simp_all add: Let_def attempted_def case_prod_beta)

lemma resolve_loop_entropy:
  "entropy_cost (fst (resolve_loop cs results resolved)) =
     entropy_cost results + sum_list (map (\<lambda>c. severity_cost (severity c)) cs)"
proof (induction cs arbitrary: results resolved)
  case Nil
  show ?case by simp
next
  case (Cons c cs)
  have "snd (resolution_strategies (severity c) c) = severity_cost (severity c)"
    by (rule strategy_cost)
  then show ?case
    by (simp add: Let_def Cons.IH case_prod_beta)
qed

lemma resolve_loop_count:
  "contradictions_resolved (fst (resolve_loop cs results resolved)) =
     contradictions_resolved results + length cs"
  by (induction cs arbitrary: results resolved)
    (simp_all add: Let_def case_prod_beta)

lemma sum_list_insort_key:
  "sum_list (map g (insort_key f x xs)) = g x + sum_list (map g xs)"
  for g :: "'a \<Rightarrow> real"
  by (induction xs) simp_all

lemma sum_list_sort_key:
  "sum_list (map g (sort_key f xs)) = sum_list (map g xs)"
  for g :: "'a \<Rightarrow> real"
  by (induction xs) (simp_all add: sum_list_insort_key)

lemma resolve_state:
  "snd (resolve_active_contradictions self) =
     self\<lparr>resolved_contradictions :=
            resolved_contradictions self @
              map attempted
                (sort_key (\<lambda>c. - severity_value (severity c)) (active_contradictions self)),
          active_contradictions := []\<rparr>"
  using resolve_loop_resolved
    [of "sort_key (\<lambda>c. - severity_value (severity c)) (active_contradictions self)"
        "\<lparr>contradictions_resolved = 0, entropy_cost = 0,
          consciousness_delta = 0, preserved_information = 0\<rparr>"
        "resolved_contradictions self"]
  by (simp add: resolve_active_contradictions_def Let_def case_prod_beta)

lemma resolve_entropy:
  "entropy_cost (fst (resolve_active_contradictions self)) =
     sum_list (map (\<lambda>c. severity_cost (severity c)) (active_contradictions self))"
  using resolve_loop_entropy
    [of "sort_key (\<lambda>c. - severity_value (severity c)) (active_contradictions self)"
        "\<lparr>contradictions_resolved = 0, entropy_cost = 0,
          consciousness_delta = 0, preserved_information = 0\<rparr>"
        "resolved_contradictions self"]
  by (simp add: resolve_active_contradictions_def Let_def sum_list_sort_key case_prod_beta)

lemma resolve_count:
  "contradictions_resolved (fst (resolve_active_contradictions self)) =
     length (active_contradictions self)"
  using resolve_loop_count
    [of "sort_key (\<lambda>c. - severity_value (severity c)) (active_contradictions self)"
        "\<lparr>contradictions_resolved = 0, entropy_cost = 0,
          consciousness_delta = 0, preserved_information = 0\<rparr>"
        "resolved_contradictions self"]
  by (simp add: resolve_active_contradictions_def Let_def case_prod_beta)

lemma engine_A_B_eq:
  "update_belief_network engine_A ''B'' (-1) 1 =
     (1, \<lparr>active_contradictions =
            [\<lparr>belief_a = ''A'', belief_b = ''B'', value_a = 1, value_b = - 1,
              severity = HARD, timestamp = 0, context_text = '''',
              resolution_attempts = 0\<rparr>],
          resolved_contradictions = [],
          cortex = init_trinary_cortex,
          belief_network = [(''A'', 1), (''B'', - 1)],
          confidence_network = [(''A'', 1), (''B'', 1)]\<rparr>)"
  by (simp add: engine_A_def fresh_engine_def init_contradiction_cortex_def
      update_belief_network_def detect_contradiction_def Let_def)

text \<open>
  Claim C1 as stated fails. With \<open>A\<close> already in the network as true, asserting \<open>A\<close> as
  false runs the detector on the stored entry of \<open>A\<close> itself, before that entry is
  overwritten, and appends a HARD contradiction whose two names are both \<open>A\<close>.
\<close>

theorem self_conflict_counterexample:
  "belief_network engine_A = [(''A'', 1)]
   \<and> update_belief_network engine_A ''A'' (-1) 1.0 =
       (1, \<lparr>active_contradictions =
              [\<lparr>belief_a = ''A'', belief_b = ''A'', value_a = 1, value_b = - 1,
                severity = HARD, timestamp = 0, context_text = '''',
                resolution_attempts = 0\<rparr>],
            resolved_contradictions = [],
            cortex = init_trinary_cortex,
            belief_network = [(''A'', - 1)],
            confidence_network = [(''A'', 1)]\<rparr>)"
  by (simp add: engine_A_def fresh_engine_def init_contradiction_cortex_def
      update_belief_network_def detect_contradiction_def Let_def)

text \<open>
  Claim C1, as amended. A call \<open>update_belief_network(name, value, confidence)\<close> appends
  to the active list, in the order of the network, one contradiction for each stored
  entry whose value differs from \<open>value\<close>, and returns their number. Every appended
  contradiction has \<open>name\<close> and \<open>value\<close> on its second side and a stored entry with a
  different value on its first side. A contradiction whose two names are both \<open>name\<close> is
  therefore created exactly when \<open>name\<close> is already stored with a value different from
  \<open>value\<close>: never for a new name, and never when a name is asserted again with the value
  it has.
\<close>

theorem update_belief_network_conflicts:
  "active_contradictions (snd (update_belief_network self belief_name v confidence)) =
     active_contradictions self @ appended_contradictions self belief_name v
   \<and> fst (update_belief_network self belief_name v confidence) =
       length (appended_contradictions self belief_name v)
   \<and> map (\<lambda>c. (belief_a c, value_a c, belief_b c, value_b c))
         (drop (length (active_contradictions self))
            (active_contradictions
               (snd (update_belief_network self belief_name v confidence)))) =
       map (\<lambda>(k, w). (k, w, belief_name, v))
         (filter (\<lambda>(k, w). w \<noteq> v) (belief_network self))
   \<and> fst (update_belief_network self belief_name v confidence) =
       length (filter (\<lambda>(k, w). w \<noteq> v) (belief_network self))
   \<and> (\<forall>c \<in> set (appended_contradictions self belief_name v).
         belief_b c = belief_name \<and> value_b c = v
         \<and> (belief_a c, value_a c) \<in> set (belief_network self) \<and> value_a c \<noteq> v)
   \<and> ((\<exists>c \<in> set (appended_contradictions self belief_name v).
          belief_a c = belief_name \<and> belief_b c = belief_name)
        \<longleftrightarrow> (\<exists>w. (belief_name, w) \<in> set (belief_network self) \<and> w \<noteq> v))"
proof -
  let ?new = "appended_contradictions self belief_name v"
  have mem: "c \<in> set ?new \<longleftrightarrow>
      (\<exists>k w. (k, w) \<in> set (belief_network self)
         \<and> detect_contradiction k w belief_name v = Some c)" for c
    by (force simp: appended_contradictions_def detect_loop_acc set_map_filter_iff)
  have sides: "belief_b c = belief_name \<and> value_b c = v
      \<and> (belief_a c, value_a c) \<in> set (belief_network self) \<and> value_a c \<noteq> v"
    if "c \<in> set ?new" for c
  proof -
    from that obtain k w where kw: "(k, w) \<in> set (belief_network self)"
      and d: "detect_contradiction k w belief_name v = Some c"
      using mem by blast
    from detect_contradiction_Some [OF d] kw show ?thesis by simp
  qed
  have "\<exists>c \<in> set ?new. belief_a c = belief_name \<and> belief_b c = belief_name"
    if "(belief_name, w) \<in> set (belief_network self)" and "w \<noteq> v" for w
  proof -
    from detect_contradiction_differ [OF that(2)]
    obtain c where d: "detect_contradiction belief_name w belief_name v = Some c"
      by blast
    with that(1) have "c \<in> set ?new" using mem by blast
    with detect_contradiction_Some [OF d] show ?thesis by blast
  qed
  moreover have "\<exists>w. (belief_name, w) \<in> set (belief_network self) \<and> w \<noteq> v"
    if "c \<in> set ?new" and "belief_a c = belief_name" for c
    using sides [OF that(1)] that(2) by auto
  ultimately have iff: "(\<exists>c \<in> set ?new. belief_a c = belief_name \<and> belief_b c = belief_name)
      \<longleftrightarrow> (\<exists>w. (belief_name, w) \<in> set (belief_network self) \<and> w \<noteq> v)"
    by blast
  have "active_contradictions (snd (update_belief_network self belief_name v confidence)) =
      active_contradictions self @ ?new"
    by (simp add: update_belief_network_def appended_contradictions_def Let_def)
  moreover have "fst (update_belief_network self belief_name v confidence) = length ?new"
    by (simp add: update_belief_network_def appended_contradictions_def Let_def)
  moreover have "map (\<lambda>c. (belief_a c, value_a c, belief_b c, value_b c))
         (drop (length (active_contradictions self))
            (active_contradictions
               (snd (update_belief_network self belief_name v confidence)))) =
       map (\<lambda>(k, w). (k, w, belief_name, v))
         (filter (\<lambda>(k, w). w \<noteq> v) (belief_network self))"
    by (simp add: update_belief_network_def Let_def detect_loop_sides)
  moreover have "fst (update_belief_network self belief_name v confidence) =
       length (filter (\<lambda>(k, w). w \<noteq> v) (belief_network self))"
    using detect_loop_sides [of "belief_network self" belief_name v, THEN arg_cong, of length]
    by (simp add: update_belief_network_def Let_def)
  ultimately show ?thesis
    using sides iff by blast
qed

theorem update_belief_network_conflicts_witness:
  "(\<exists>w. (''A'', w) \<in> set (belief_network engine_A) \<and> w \<noteq> -1)
   \<and> (\<exists>c \<in> set (appended_contradictions engine_A ''A'' (-1)).
         belief_a c = ''A'' \<and> belief_b c = ''A'' \<and> value_b c = -1
         \<and> (belief_a c, value_a c) \<in> set (belief_network engine_A) \<and> value_a c \<noteq> -1)
   \<and> \<not> (\<exists>c \<in> set (appended_contradictions engine_A ''A'' 1).
         belief_a c = ''A'' \<and> belief_b c = ''A'')
   \<and> fst (update_belief_network engine_A ''B'' (-1) 1) = 1
   \<and> map (\<lambda>c. (belief_a c, value_a c, belief_b c, value_b c))
         (active_contradictions (snd (update_belief_network engine_A ''B'' (-1) 1))) =
       [(''A'', 1, ''B'', -1)]"
proof -
  have net: "belief_network engine_A = [(''A'', 1)]"
    by (simp add: engine_A_def fresh_engine_def init_contradiction_cortex_def
        update_belief_network_def)
  have act: "active_contradictions engine_A = []"
    by (simp add: engine_A_def fresh_engine_def init_contradiction_cortex_def
        update_belief_network_def)
  have stored: "\<exists>w. (''A'', w) \<in> set (belief_network engine_A) \<and> w \<noteq> -1"
    by (simp add: net)
  have self_conflict: "\<exists>c \<in> set (appended_contradictions engine_A ''A'' (-1)).
         belief_a c = ''A'' \<and> belief_b c = ''A'' \<and> value_b c = -1
         \<and> (belief_a c, value_a c) \<in> set (belief_network engine_A) \<and> value_a c \<noteq> -1"
    using update_belief_network_conflicts [of engine_A "''A''" "-1" 1]
    by (auto simp: net)
  have same_value: "\<not> (\<exists>c \<in> set (appended_contradictions engine_A ''A'' 1).
         belief_a c = ''A'' \<and> belief_b c = ''A'')"
    using update_belief_network_conflicts [of engine_A "''A''" 1 1]
    by (auto simp: net)
  have other_count: "fst (update_belief_network engine_A ''B'' (-1) 1) = 1"
    using update_belief_network_conflicts [of engine_A "''B''" "-1" 1]
    by (simp add: net)
  have other_sides: "map (\<lambda>c. (belief_a c, value_a c, belief_b c, value_b c))
         (active_contradictions (snd (update_belief_network engine_A ''B'' (-1) 1))) =
       [(''A'', 1, ''B'', -1)]"
    using update_belief_network_conflicts
      [of engine_A "''B''" "-1" 1, THEN conjunct2, THEN conjunct2, THEN conjunct1]
    by (simp add: net act)
  from stored self_conflict same_value other_count other_sides
  show ?thesis by (intro conjI)
qed

text \<open>
  Claim C2. The detector is called with both values \<open>0\<close>. The claim expects a
  contradiction of severity SOFT; the first test of the function, \<open>value_a == value_b\<close>,
  returns \<open>None\<close> before the severity is looked at.
\<close>

theorem detect_contradiction_both_unknown:
  "detect_contradiction belief_name_a 0 belief_name_b 0 = None"
  by (simp add: detect_contradiction_def)

lemma detect_contradiction_never_soft:
  "detect_contradiction belief_name_a va belief_name_b vb = Some c \<Longrightarrow> severity c \<noteq> SOFT"
  by (auto simp: detect_contradiction_def Let_def split: if_splits)

text \<open>
  Claim C5. \<open>resolve_active_contradictions\<close> leaves the active list empty, appends to the
  resolved list every contradiction that was active, in descending order of severity and
  each with its attempt counter one higher, so that the resolved list grows by the number
  of active contradictions; the reported count is that number and the reported entropy
  cost is the sum of the costs of their severities (SOFT 0.0, MEDIUM 0.3, HARD 0.5,
  CRITICAL 1.0). After \<open>A\<close> is asserted true and \<open>B\<close> false on a fresh engine, one HARD
  contradiction is active, and resolving reports entropy cost 0.5 and one resolved.
\<close>

theorem resolve_active_contradictions_effect:
  "active_contradictions (snd (resolve_active_contradictions self)) = []
   \<and> resolved_contradictions (snd (resolve_active_contradictions self)) =
       resolved_contradictions self @
         map attempted
           (sort_key (\<lambda>c. - severity_value (severity c)) (active_contradictions self))
   \<and> length (resolved_contradictions (snd (resolve_active_contradictions self))) =
       length (resolved_contradictions self) + length (active_contradictions self)
   \<and> contradictions_resolved (fst (resolve_active_contradictions self)) =
       length (active_contradictions self)
   \<and> entropy_cost (fst (resolve_active_contradictions self)) =
       sum_list (map (\<lambda>c. severity_cost (severity c)) (active_contradictions self))
   \<and> fst (update_belief_network engine_A ''B'' (-1) 1.0) = 1
   \<and> map severity (active_contradictions engine_A_B) = [HARD]
   \<and> entropy_cost (fst (resolve_active_contradictions engine_A_B)) = 0.5
   \<and> contradictions_resolved (fst (resolve_active_contradictions engine_A_B)) = 1
   \<and> active_contradictions (snd (resolve_active_contradictions engine_A_B)) = []"
proof -
  have scenario: "map severity (active_contradictions engine_A_B) = [HARD]"
    by (simp add: engine_A_B_def engine_A_B_eq)
  then have hard: "map (\<lambda>c. severity_cost (severity c)) (active_contradictions engine_A_B) = [0.5]"
    by (cases "active_contradictions engine_A_B") auto
  have "entropy_cost (fst (resolve_active_contradictions engine_A_B)) = 0.5"
    by (simp add: resolve_entropy hard)
  moreover have "contradictions_resolved (fst (resolve_active_contradictions engine_A_B)) = 1"
    using scenario by (simp add: resolve_count flip: length_map [of severity])
  moreover have "fst (update_belief_network engine_A ''B'' (-1) 1.0) = 1"
    using engine_A_B_eq by simp
  ultimately show ?thesis
    using scenario by (simp add: resolve_state resolve_count resolve_entropy)
qed

text \<open>
  Claim C6. \<open>resolve_active_contradictions\<close> leaves the belief network, the confidence
  network and the evaluator, with its log of reasoning steps, as they were; the
  \<open>consciousness_delta\<close> it reports, the evaluator's phi after the call minus the one
  before, is \<open>0.0\<close>.
\<close>

theorem resolve_active_contradictions_frame:
  "belief_network (snd (resolve_active_contradictions self)) = belief_network self
   \<and> confidence_network (snd (resolve_active_contradictions self)) = confidence_network self
   \<and> cortex (snd (resolve_active_contradictions self)) = cortex self
   \<and> consciousness_delta (fst (resolve_active_contradictions self)) = 0"
  by (simp add: resolve_state)
    (simp add: resolve_active_contradictions_def Let_def case_prod_beta)

text \<open>
  Claim C7. \<open>system_coherence_score\<close> is \<open>1.0\<close> on an empty belief network; otherwise
  it is the mean of the absolute belief values plus 0.05 for each resolved contradiction
  minus 0.1 for each active one, clamped into the interval from 0.0 to 1.0. The score
  lies in that interval in every state.
\<close>

theorem system_coherence_score_clamped:
  "(belief_network self = [] \<longrightarrow> system_coherence_score self = 1)
   \<and> (belief_network self \<noteq> [] \<longrightarrow>
        system_coherence_score self =
          max 0 (min 1
            (real_of_int (\<Sum>(k, v)\<leftarrow>belief_network self. \<bar>v\<bar>)
               / real (length (belief_network self))
             + 0.05 * real (length (resolved_contradictions self))
             - 0.1 * real (length (active_contradictions self)))))
   \<and> 0 \<le> system_coherence_score self \<and> system_coherence_score self \<le> 1"
  by (simp add: system_coherence_score_def np_mean_def Let_def mult.commute)

theorem system_coherence_score_clamped_witness:
  "belief_network fresh_engine = [] \<and> system_coherence_score fresh_engine = 1
   \<and> belief_network engine_A_B \<noteq> [] \<and> system_coherence_score engine_A_B = 9 / 10"
  using system_coherence_score_clamped [of fresh_engine]
    system_coherence_score_clamped [of engine_A_B]
  by (simp add: fresh_engine_def init_contradiction_cortex_def engine_A_B_def engine_A_B_eq)

end
